theory Spec2Isabelle
  imports Main "HOL-Library.AList"
begin

section \<open>Exceptions\<close>

text \<open>
  The exceptions that can leave an endpoint of \<^verbatim>\<open>flytekit_learn/fastapi.py\<close>.
  \<open>HTTPException\<close> is raised by the endpoints themselves (status code and detail).
  \<open>StopIteration\<close>, \<open>TypeError\<close>, \<open>ValueError\<close>, \<open>UnboundLocalError\<close> and \<open>KeyError\<close> are
  raised by the Python run time at a statement of the endpoint. \<open>Propagated\<close> is any
  exception raised inside a collaborator (the remote gateway, the dataset provider, the
  model's own \<open>train\<close>/\<open>predict\<close>, the body of a generator); the endpoints catch none of
  them, so they leave the endpoint as they are.
\<close>

datatype exn =
    HTTPException nat string
  | StopIteration
  | TypeError string
  | ValueError string
  | UnboundLocalError string
  | KeyError string
  | Propagated string

section \<open>Python generators\<close>

text \<open>
  \<^verbatim>\<open>model._dataset._labeller(session_id, batch_size, **reader_inputs)\<close> returns a generator
  object, which the endpoint advances with \<^verbatim>\<open>next(generator)\<close> and
  \<^verbatim>\<open>generator.send(submission)\<close>. A generator is modelled as a resumption: running
  its body up to the next suspension point either yields a value and waits for the value
  sent in, or returns (\<open>StopIteration\<close> for the caller), or raises.

  A generator object is in one of three states: created and not yet started, suspended at
  a \<^verbatim>\<open>yield\<close>, or closed (its body has returned or raised). The object is mutable; the
  model returns the new state together with the result of every operation.
\<close>

datatype ('b, 's) outcome =
    Yield 'b "'s option \<Rightarrow> ('b, 's) outcome"
  | Return
  | Raise string

datatype ('b, 's) generator =
    Created "('b, 's) outcome"
  | Suspended "'s option \<Rightarrow> ('b, 's) outcome"
  | Closed

fun run_body :: "('b, 's) outcome \<Rightarrow> (exn + 'b) \<times> ('b, 's) generator" where
  "run_body (Yield b k) = (Inr b, Suspended k)"
| "run_body Return = (Inl StopIteration, Closed)"
| "run_body (Raise msg) = (Inl (Propagated msg), Closed)"

text \<open>
  \<^verbatim>\<open>generator.send(value)\<close>. Sending a value other than \<^verbatim>\<open>None\<close> to a generator that
  has not started is a \<open>TypeError\<close> and leaves it as it is; a closed generator raises
  \<open>StopIteration\<close> for ever.
\<close>

fun gen_send :: "('b, 's) generator \<Rightarrow> 's option \<Rightarrow> (exn + 'b) \<times> ('b, 's) generator" where
  "gen_send (Created body) None = run_body body"
| "gen_send (Created body) (Some v) =
     (Inl (TypeError ''can't send non-None value to a just-started generator''), Created body)"
| "gen_send (Suspended k) v = run_body (k v)"
| "gen_send Closed v = (Inl StopIteration, Closed)"

text \<open>\<^verbatim>\<open>next(generator)\<close> is \<^verbatim>\<open>generator.send(None)\<close>.\<close>

definition gen_next :: "('b, 's) generator \<Rightarrow> (exn + 'b) \<times> ('b, 's) generator" where
  "gen_next g = gen_send g None"

section \<open>The labelling session table\<close>

text \<open>
  \<^verbatim>\<open>APP_LABELLER_CACHE\<close> is a module-level dictionary from session identifiers to
  dictionaries with the keys \<^verbatim>\<open>"generator"\<close>, \<^verbatim>\<open>"awaiting_submission"\<close> and
  \<^verbatim>\<open>"session_complete"\<close>.
\<close>

record ('b, 's) session =
  generator :: "('b, 's) generator"
  awaiting_submission :: bool
  session_complete :: bool

type_synonym ('b, 's) labeller_cache = "string \<rightharpoonup> ('b, 's) session"

text \<open>A Python dictionary with string keys, in insertion order.\<close>

type_synonym 'v dict = "(string \<times> 'v) list"

text \<open>
  The dataset provider's \<^verbatim>\<open>_labeller\<close>, a collaborator: called with the session
  identifier, the batch size and the reader inputs as keyword arguments, it returns a
  generator or raises.
\<close>

type_synonym ('v, 'b, 's) labeller = "string \<Rightarrow> int \<Rightarrow> 'v dict \<Rightarrow> string + ('b, 's) generator"

text \<open>The two response shapes of the labelling endpoint.\<close>

datatype 'b labeller_response =
    BatchResponse "'b option" bool
  | SubmitResponse bool bool

text \<open>
  An assignment \<^verbatim>\<open>APP_LABELLER_CACHE[session_id][key] = value\<close>. The endpoint makes it
  only after the entry for \<open>session_id\<close> exists.
\<close>

definition update_session ::
  "('b, 's) labeller_cache \<Rightarrow> string \<Rightarrow> (('b, 's) session \<Rightarrow> ('b, 's) session) \<Rightarrow> ('b, 's) labeller_cache" where
  "update_session cache sid f = (case cache sid of None \<Rightarrow> cache | Some s \<Rightarrow> cache(sid \<mapsto> f s))"

text \<open>
  Lines 155 to 165 of \<^verbatim>\<open>_labeller_endpoint\<close>: the session is looked up, and created
  when the table has no entry for \<open>session_id\<close>. \<^verbatim>\<open>**reader_inputs\<close> with
  \<open>reader_inputs\<close> being \<^verbatim>\<open>None\<close> is a \<open>TypeError\<close>, raised before \<^verbatim>\<open>_labeller\<close> is
  called. The result is the generator, the local variable \<open>awaiting_submission\<close> and the
  table.
\<close>

definition open_session ::
  "('v, 'b, 's) labeller \<Rightarrow> ('b, 's) labeller_cache \<Rightarrow> string \<Rightarrow> int \<Rightarrow> 'v dict option \<Rightarrow>
     exn + (('b, 's) generator \<times> bool \<times> ('b, 's) labeller_cache)" where
  "open_session labeller cache session_id batch_size reader_inputs =
     (case cache session_id of
        None \<Rightarrow>
          (case reader_inputs of
             None \<Rightarrow> Inl (TypeError ''argument after ** must be a mapping, not NoneType'')
           | Some kwargs \<Rightarrow>
               (case labeller session_id batch_size kwargs of
                  Inl msg \<Rightarrow> Inl (Propagated msg)
                | Inr g \<Rightarrow>
                    Inr (g, False,
                         cache(session_id \<mapsto>
                           \<lparr>generator = g, awaiting_submission = False, session_complete = False\<rparr>))))
      | Some s \<Rightarrow> Inr (generator s, awaiting_submission s, cache))"

text \<open>
  Lines 167 to 192: the submit branch, the guard of the next-batch branch, and the
  advance of the generator. The generator object held by the table is the one advanced,
  so its new state is stored whatever the outcome.
\<close>

definition dispatch_labeller ::
  "('b, 's) generator \<Rightarrow> bool \<Rightarrow> ('b, 's) labeller_cache \<Rightarrow> string \<Rightarrow> bool \<Rightarrow> 's option \<Rightarrow>
     (exn + 'b labeller_response) \<times> ('b, 's) labeller_cache" where
  "dispatch_labeller g awaiting cache session_id submit submission =
     (if submit then
        (if \<not> awaiting then
           (Inl (HTTPException 400 ''Labels already submitted for current batch''), cache)
         else
           (case gen_send g submission of
              (Inl e, g') \<Rightarrow> (Inl e, update_session cache session_id (\<lambda>s. s\<lparr>generator := g'\<rparr>))
            | (Inr _, g') \<Rightarrow>
                (Inr (SubmitResponse True False),
                 update_session cache session_id
                   (\<lambda>s. s\<lparr>generator := g', awaiting_submission := False\<rparr>))))
      else if awaiting then
        (Inl (HTTPException 400 ''Awaiting labels from current batch''), cache)
      else
        (case gen_next g of
           (Inr batch, g') \<Rightarrow>
             (Inr (BatchResponse (Some batch) False),
              update_session cache session_id
                (\<lambda>s. s\<lparr>generator := g', awaiting_submission := True\<rparr>))
         | (Inl StopIteration, g') \<Rightarrow>
             (Inr (BatchResponse None True),
              update_session cache session_id
                (\<lambda>s. s\<lparr>generator := g', session_complete := True\<rparr>))
         | (Inl e, g') \<Rightarrow> (Inl e, update_session cache session_id (\<lambda>s. s\<lparr>generator := g'\<rparr>))))"

text \<open>
  \<^verbatim>\<open>_labeller_endpoint(session_id, batch_size, submit, reader_inputs, submission)\<close>:
  the response or the exception, and the session table afterwards.
\<close>

definition labeller_endpoint ::
  "('v, 'b, 's) labeller \<Rightarrow> ('b, 's) labeller_cache \<Rightarrow> string \<Rightarrow> int \<Rightarrow> bool \<Rightarrow> 'v dict option \<Rightarrow>
     's option \<Rightarrow> (exn + 'b labeller_response) \<times> ('b, 's) labeller_cache" where
  "labeller_endpoint labeller cache session_id batch_size submit reader_inputs submission =
     (case open_session labeller cache session_id batch_size reader_inputs of
        Inl e \<Rightarrow> (Inl e, cache)
      | Inr (g, awaiting, cache') \<Rightarrow>
          dispatch_labeller g awaiting cache' session_id submit submission)"

text \<open>
  The session tables that the endpoint can produce: the empty table at start-up, and the
  table after any request (with any arguments, served for any model, failed or not) made
  on a table that can be produced.
\<close>

inductive reachable :: "('b, 's) labeller_cache \<Rightarrow> bool" where
  start: "reachable Map.empty"
| request: "reachable cache \<Longrightarrow>
     reachable (snd (labeller_endpoint (labeller :: (string, 'b, 's) labeller) cache
                       session_id batch_size submit reader_inputs submission))"

text \<open>
  The invariant of the session table: a complete session holds a closed generator and
  awaits no submission.
\<close>

definition session_inv :: "('b, 's) labeller_cache \<Rightarrow> bool" where
  "session_inv cache =
     (\<forall>sid s. cache sid = Some s \<longrightarrow> session_complete s \<longrightarrow>
        generator s = Closed \<and> \<not> awaiting_submission s)"

text \<open>
  The three conditions of a session, read from its two flags: a batch has been delivered
  and its submission is awaited; the session is complete; the session is ready for the
  next batch.
\<close>

definition batch_awaiting_submission :: "('b, 's) session \<Rightarrow> bool" where
  "batch_awaiting_submission s = awaiting_submission s"

definition complete :: "('b, 's) session \<Rightarrow> bool" where
  "complete s = session_complete s"

definition ready_for_batch :: "('b, 's) session \<Rightarrow> bool" where
  "ready_for_batch s = (\<not> awaiting_submission s \<and> \<not> session_complete s)"


section \<open>The model handle and the remote gateway\<close>

text \<open>
  What \<^verbatim>\<open>model._remote.fetch_workflow\<close> returns: the endpoints read
  \<^verbatim>\<open>id.project\<close>, \<^verbatim>\<open>id.domain\<close> and \<^verbatim>\<open>id.name\<close> of it.
\<close>

record workflow =
  id_project :: string
  id_domain :: string
  id_name :: string

text \<open>An execution with its outputs, as \<^verbatim>\<open>execute\<close> and \<^verbatim>\<open>sync\<close> leave it.\<close>

record 'v execution =
  outputs :: "'v dict"

datatype filter = Equal string string

datatype direction = ASCENDING | DESCENDING

datatype sort = Sort string direction

text \<open>A request body that is a pydantic model is turned into a dictionary first.\<close>

datatype 'v body = PlainDict "'v dict" | BaseModel "'v dict"

fun dict_of :: "'v body \<Rightarrow> 'v dict" where
  "dict_of (PlainDict d) = d"
| "dict_of (BaseModel d) = d"

datatype pytype = Py_int | Py_float | Py_str | Py_bool

text \<open>
  The \<^verbatim>\<open>model\<close> object the endpoints close over: its workflow names, its declared
  hyperparameters, its own \<^verbatim>\<open>train\<close> and \<^verbatim>\<open>predict\<close>, the dataset's
  \<^verbatim>\<open>get_features\<close>, and the operations of \<^verbatim>\<open>model._remote\<close>. These are
  collaborators of the endpoints and are taken as parameters. \<open>'v\<close> is the type of Python
  objects other than \<^verbatim>\<open>None\<close> (models, metrics, input values, features, predictions),
  \<open>'r\<close> the state of the remote gateway, \<open>'x\<close> the execution records that the gateway's
  client lists. A collaborator returns a value or raises (\<open>Inl\<close>, with the message); an
  operation of the gateway also changes the gateway's state.
\<close>

record ('v, 'r, 'x) model =
  train_workflow_name :: string
  predict_workflow_name :: string
  predict_from_features_workflow_name :: string
  hyperparameters :: "(string \<times> pytype) list"
  train :: "'v dict \<Rightarrow> string + ('v \<times> 'v)"
  predict :: "'v dict \<Rightarrow> string + 'v"
  str :: "'v \<Rightarrow> string"
  get_features :: "'v dict list \<Rightarrow> string + 'v"
  fetch_workflow :: "string \<Rightarrow> string option \<Rightarrow> 'r \<Rightarrow> (string + workflow) \<times> 'r"
  execute :: "workflow \<Rightarrow> 'v dict \<Rightarrow> 'r \<Rightarrow> (string + 'v execution) \<times> 'r"
  list_executions_paginated ::
    "string \<Rightarrow> string \<Rightarrow> nat \<Rightarrow> filter list \<Rightarrow> sort \<Rightarrow> 'r \<Rightarrow> (string + ('x list \<times> string)) \<times> 'r"
  promote_from_model :: "'x \<Rightarrow> 'v execution"
  sync :: "'v execution \<Rightarrow> 'r \<Rightarrow> (string + 'v execution) \<times> 'r"

text \<open>The calls an endpoint makes to its collaborators, in the order it makes them.\<close>

datatype 'v call =
    FetchWorkflow string "string option"
  | Execute workflow "'v dict"
  | ListExecutions string string nat "filter list" sort
  | Sync "'v execution"
  | GetFeatures "'v dict list"
  | Train "'v dict"
  | Predict "'v dict"

text \<open>
  The mutable state around the train and predict endpoints: the two cache slots of the
  model (\<^verbatim>\<open>model._latest_model\<close> and \<^verbatim>\<open>model._metrics\<close>, \<open>None\<close> when empty), the
  state of the remote gateway, and the calls made so far.
\<close>

record ('v, 'r) state =
  latest_model :: "'v option"
  metrics :: "'v option"
  remote :: 'r
  calls :: "'v call list"

type_synonym ('st, 'a) action = "'st \<Rightarrow> (exn + 'a) \<times> 'st"

definition succeed :: "'a \<Rightarrow> ('st, 'a) action" where
  "succeed a st = (Inr a, st)"

definition raise :: "exn \<Rightarrow> ('st, 'a) action" where
  "raise e st = (Inl e, st)"

text \<open>Sequencing: an exception ends the endpoint, with the state as it was when raised.\<close>

definition and_then :: "('st, 'a) action \<Rightarrow> ('a \<Rightarrow> ('st, 'b) action) \<Rightarrow> ('st, 'b) action" where
  "and_then m f st = (case m st of (Inl e, st') \<Rightarrow> (Inl e, st') | (Inr a, st') \<Rightarrow> f a st')"

definition propagate :: "string + 'a \<Rightarrow> exn + 'a" where
  "propagate r = (case r of Inl msg \<Rightarrow> Inl (Propagated msg) | Inr a \<Rightarrow> Inr a)"

text \<open>A call to the remote gateway: it is recorded, and the gateway's state moves on.\<close>

definition remote_call ::
  "'v call \<Rightarrow> ('r \<Rightarrow> (string + 'a) \<times> 'r) \<Rightarrow> (('v, 'r) state, 'a) action" where
  "remote_call c operation st =
     (case operation (remote st) of
        (r, rs) \<Rightarrow> (propagate r, st\<lparr>remote := rs, calls := calls st @ [c]\<rparr>))"

text \<open>A call to the model's own code or to the dataset: it is recorded.\<close>

definition local_call :: "'v call \<Rightarrow> string + 'a \<Rightarrow> (('v, 'r) state, 'a) action" where
  "local_call c r st = (propagate r, st\<lparr>calls := calls st @ [c]\<rparr>)"

text \<open>\<^verbatim>\<open>d[key]\<close>, a \<open>KeyError\<close> when the key is missing.\<close>

definition getitem :: "'v dict \<Rightarrow> string \<Rightarrow> ('st, 'v) action" where
  "getitem d key = (case map_of d key of None \<Rightarrow> raise (KeyError key) | Some v \<Rightarrow> succeed v)"

text \<open>\<^verbatim>\<open>d.update(other)\<close>: a key already present keeps its place and takes the new value.\<close>

definition dict_update :: "'v dict \<Rightarrow> 'v dict \<Rightarrow> 'v dict" where
  "dict_update d other = fold (\<lambda>(k, v). AList.update k v) other d"

text \<open>
  \<^verbatim>\<open>if x:\<close> for an optional dictionary or list: \<^verbatim>\<open>None\<close> and the empty one are
  false. The result is the value when it is true.
\<close>

fun truthy :: "'a list option \<Rightarrow> 'a list option" where
  "truthy None = None"
| "truthy (Some []) = None"
| "truthy (Some (x # xs)) = Some (x # xs)"

text \<open>
  \<^verbatim>\<open>f"{model_name}<suffix>" if model_name else <otherwise>\<close>: the empty string is as
  false as \<^verbatim>\<open>None\<close>.
\<close>

definition workflow_name :: "string option \<Rightarrow> string \<Rightarrow> string \<Rightarrow> string" where
  "workflow_name model_name suffix otherwise =
     (case model_name of
        None \<Rightarrow> otherwise
      | Some n \<Rightarrow> if n = [] then otherwise else n @ suffix)"

datatype 'v train_response = TrainResponse string 'v

text \<open>\<^verbatim>\<open>_train_endpoint(local, model_name, inputs)\<close>.\<close>

definition train_endpoint ::
  "('v, 'r, 'x) model \<Rightarrow> bool \<Rightarrow> string option \<Rightarrow> 'v body \<Rightarrow>
     (('v, 'r) state, 'v train_response) action" where
  "train_endpoint model local model_name inputs =
     (let inputs = dict_of inputs in
      if \<not> local then
        and_then (let n = workflow_name model_name ''.train'' (train_workflow_name model)
                  in remote_call (FetchWorkflow n None) (fetch_workflow model n None))
          (\<lambda>train_wf.
        and_then (remote_call (Execute train_wf inputs) (execute model train_wf inputs))
          (\<lambda>execution.
        and_then (getitem (outputs execution) ''trained_model'') (\<lambda>trained_model.
        and_then (getitem (outputs execution) ''metrics'') (\<lambda>metrics.
        succeed (TrainResponse (str model trained_model) metrics)))))
      else
        and_then (local_call (Train inputs) (train model inputs)) (\<lambda>(trained_model, metrics).
        and_then (\<lambda>st. (Inr (), st\<lparr>latest_model := Some trained_model, metrics := Some metrics\<rparr>))
          (\<lambda>_.
        succeed (TrainResponse (str model trained_model) metrics))))"

text \<open>The filters of the listing: the launch plan of the train workflow, and the phase.\<close>

definition training_filters :: "workflow \<Rightarrow> filter list" where
  "training_filters train_wf =
     [Equal ''launch_plan.name'' (id_name train_wf), Equal ''phase'' ''SUCCEEDED'']"

text \<open>
  Lines 97 to 121 of \<^verbatim>\<open>_predict_endpoint\<close>: the model to score with. Unpacking
  \<^verbatim>\<open>[latest_training_execution, *_], _\<close> from an empty list of executions is a
  \<open>ValueError\<close>.
\<close>

definition resolve_model ::
  "('v, 'r, 'x) model \<Rightarrow> string option \<Rightarrow> string option \<Rightarrow> string \<Rightarrow> (('v, 'r) state, 'v) action" where
  "resolve_model model model_name version model_source =
     (if model_source = ''remote'' then
        and_then (let n = workflow_name model_name ''.train'' (train_workflow_name model)
                  in remote_call (FetchWorkflow n version) (fetch_workflow model n version))
          (\<lambda>train_wf.
        and_then (remote_call
                    (ListExecutions (id_project train_wf) (id_domain train_wf) 1
                       (training_filters train_wf) (Sort ''created_at'' DESCENDING))
                    (list_executions_paginated model (id_project train_wf) (id_domain train_wf) 1
                       (training_filters train_wf) (Sort ''created_at'' DESCENDING)))
          (\<lambda>(executions, token).
        (case executions of
           [] \<Rightarrow> raise (ValueError ''not enough values to unpack (expected at least 1, got 0)'')
         | latest_training_execution # _ \<Rightarrow>
             (let latest_training_execution = promote_from_model model latest_training_execution in
              and_then (remote_call (Sync latest_training_execution)
                          (sync model latest_training_execution))
                (\<lambda>latest_training_execution.
              getitem (outputs latest_training_execution) ''trained_model'')))))
      else
        (\<lambda>st. case latest_model st of
                 None \<Rightarrow> raise (HTTPException 500 ''trained model not found'') st
               | Some m \<Rightarrow> succeed m st))"

text \<open>
  Lines 123 to 140: the inputs of the prediction and the predict workflow. When neither
  \<open>inputs\<close> nor \<open>features\<close> is given (or both are empty), no branch binds the local
  variable \<^verbatim>\<open>predict_wf\<close>: the result carries \<open>None\<close> for it.
\<close>

definition build_request ::
  "('v, 'r, 'x) model \<Rightarrow> string option \<Rightarrow> string option \<Rightarrow> 'v \<Rightarrow> 'v dict option \<Rightarrow>
     'v dict list option \<Rightarrow> (('v, 'r) state, 'v dict \<times> workflow option) action" where
  "build_request model model_name version the_model inputs features =
     (let workflow_inputs = [(''model'', the_model)] in
      case truthy inputs of
        Some given_inputs \<Rightarrow>
          and_then (let n = workflow_name model_name ''.predict_workflow_name''
                              (predict_workflow_name model)
                    in remote_call (FetchWorkflow n version) (fetch_workflow model n version))
            (\<lambda>predict_wf. succeed (dict_update workflow_inputs given_inputs, Some predict_wf))
      | None \<Rightarrow>
          (case truthy features of
             Some given_features \<Rightarrow>
               and_then (local_call (GetFeatures given_features) (get_features model given_features))
                 (\<lambda>feats.
               and_then (let n = workflow_name model_name ''.predict_from_features_workflow_name''
                                   (predict_from_features_workflow_name model)
                         in remote_call (FetchWorkflow n version) (fetch_workflow model n version))
                 (\<lambda>predict_wf.
               succeed (AList.update ''features'' feats workflow_inputs, Some predict_wf)))
           | None \<Rightarrow> succeed (workflow_inputs, None)))"

text \<open>
  \<^verbatim>\<open>_predict_endpoint(local, model_name, model_version, model_source, inputs, features)\<close>.
  Reading the unbound \<^verbatim>\<open>predict_wf\<close> for the call of \<^verbatim>\<open>execute\<close> is an
  \<open>UnboundLocalError\<close>; the local branch does not read it.
\<close>

definition predict_endpoint ::
  "('v, 'r, 'x) model \<Rightarrow> bool \<Rightarrow> string option \<Rightarrow> string \<Rightarrow> string \<Rightarrow> 'v dict option \<Rightarrow>
     'v dict list option \<Rightarrow> (('v, 'r) state, 'v) action" where
  "predict_endpoint model local model_name model_version model_source inputs features =
     (let version = (if model_version = ''latest'' then None else Some model_version) in
      and_then (resolve_model model model_name version model_source) (\<lambda>latest_model.
      and_then (build_request model model_name version latest_model inputs features)
        (\<lambda>(workflow_inputs, predict_wf).
      if \<not> local then
        (case predict_wf of
           None \<Rightarrow> raise (UnboundLocalError ''predict_wf'')
         | Some bound_wf \<Rightarrow>
             and_then (remote_call (Execute bound_wf workflow_inputs)
                         (execute model bound_wf workflow_inputs))
               (\<lambda>execution. getitem (outputs execution) ''o0''))
      else local_call (Predict workflow_inputs) (predict model workflow_inputs))))"

text \<open>
  What the gateway lists for the train workflow of a predict request, read off the
  gateway's answers: \<open>None\<close> when the workflow or the listing cannot be had, the listed
  executions otherwise. The query is the one of \<open>resolve_model\<close>: limit 1, the launch plan
  of the workflow, phase \<open>SUCCEEDED\<close>, newest first.
\<close>

definition succeeded_training_executions ::
  "('v, 'r, 'x) model \<Rightarrow> string option \<Rightarrow> string \<Rightarrow> 'r \<Rightarrow> 'x list option" where
  "succeeded_training_executions model model_name model_version rs =
     (case fetch_workflow model (workflow_name model_name ''.train'' (train_workflow_name model))
             (if model_version = ''latest'' then None else Some model_version) rs of
        (Inl _, _) \<Rightarrow> None
      | (Inr train_wf, rs') \<Rightarrow>
          (case list_executions_paginated model (id_project train_wf) (id_domain train_wf) 1
                  (training_filters train_wf) (Sort ''created_at'' DESCENDING) rs' of
             (Inl _, _) \<Rightarrow> None
           | (Inr (executions, _), _) \<Rightarrow> Some executions))"

section \<open>Registration of the endpoints\<close>

datatype Endpoints = TRAINER | PREDICTOR | EVALUATOR | LABELLER

text \<open>
  A parameter of an endpoint function as \<^verbatim>\<open>inspect.signature\<close> shows it: its name,
  its annotation and its default. An annotation is a type of the \<^verbatim>\<open>typing\<close> module,
  kept as written, or a pydantic model made by \<^verbatim>\<open>create_model\<close>: its name and its
  fields, each with a type and whether it is required.
\<close>

datatype annotation =
    Typing string
  | PydanticModel string "(string \<times> pytype \<times> bool) list"

record parameter =
  param_name :: string
  param_annotation :: annotation
  param_default :: string

text \<open>
  \<^verbatim>\<open>create_model(name, **{k: (v, ...) for k, v in fields.items()})\<close>: the ellipsis
  makes every field required.
\<close>

definition create_model :: "string \<Rightarrow> (string \<times> pytype) list \<Rightarrow> annotation" where
  "create_model model_name field_definitions =
     PydanticModel model_name (map (\<lambda>(k, v). (k, v, True)) field_definitions)"

text \<open>The signatures of the three endpoint functions, as the source declares them.\<close>

fun signature :: "Endpoints \<Rightarrow> parameter list" where
  "signature TRAINER =
     [\<lparr>param_name = ''local'', param_annotation = Typing ''bool'', param_default = ''False''\<rparr>,
      \<lparr>param_name = ''model_name'', param_annotation = Typing ''Optional[str]'', param_default = ''None''\<rparr>,
      \<lparr>param_name = ''inputs'', param_annotation = Typing ''Dict'', param_default = ''Body(...)''\<rparr>]"
| "signature PREDICTOR =
     [\<lparr>param_name = ''local'', param_annotation = Typing ''bool'', param_default = ''False''\<rparr>,
      \<lparr>param_name = ''model_name'', param_annotation = Typing ''Optional[str]'', param_default = ''None''\<rparr>,
      \<lparr>param_name = ''model_version'', param_annotation = Typing ''str'', param_default = ''latest''\<rparr>,
      \<lparr>param_name = ''model_source'', param_annotation = Typing ''str'', param_default = ''remote''\<rparr>,
      \<lparr>param_name = ''inputs'', param_annotation = Typing ''Optional[Dict]'', param_default = ''Body(None)''\<rparr>,
      \<lparr>param_name = ''features'', param_annotation = Typing ''Optional[List[Dict[str, Any]]]'',
        param_default = ''Body(None)''\<rparr>]"
| "signature LABELLER =
     [\<lparr>param_name = ''session_id'', param_annotation = Typing ''str'', param_default = ''<empty>''\<rparr>,
      \<lparr>param_name = ''batch_size'', param_annotation = Typing ''int'', param_default = ''3''\<rparr>,
      \<lparr>param_name = ''submit'', param_annotation = Typing ''bool'', param_default = ''False''\<rparr>,
      \<lparr>param_name = ''reader_inputs'', param_annotation = Typing ''Optional[Dict]'',
        param_default = ''Body(None)''\<rparr>,
      \<lparr>param_name = ''submission'', param_annotation = Typing ''Optional[List[Dict[str, Any]]]'',
        param_default = ''Body(None)''\<rparr>]"
| "signature EVALUATOR = []"

text \<open>
  Lines 200 to 210: \<^verbatim>\<open>sig.replace(parameters=[...])\<close> gives the parameter named
  \<^verbatim>\<open>"hyperparameters"\<close> the annotation \<^verbatim>\<open>HyperparameterModel\<close> and keeps every other
  parameter.
\<close>

definition replace_parameters :: "annotation \<Rightarrow> parameter list \<Rightarrow> parameter list" where
  "replace_parameters HyperparameterModel sig =
     map (\<lambda>p. if param_name p = ''hyperparameters''
              then p\<lparr>param_annotation := HyperparameterModel\<rparr> else p) sig"

text \<open>
  The \<^verbatim>\<open>wrapper\<close> of \<^verbatim>\<open>_app_decorator_wrapper\<close>, for a function tagged
  \<open>app_method\<close> and registered through the router method named \<open>app_method_name\<close>: the
  endpoint handed to the router's decorator, with the signature it has then. The
  dictionary of endpoint functions has no entry for \<open>EVALUATOR\<close>.
\<close>

definition wrapper ::
  "('v, 'r, 'x) model \<Rightarrow> string \<Rightarrow> Endpoints \<Rightarrow> exn + (Endpoints \<times> parameter list)" where
  "wrapper model app_method_name app_method =
     (if \<not> (app_method_name = ''get'' \<or> app_method_name = ''post'' \<or> app_method_name = ''put'')
      then Inl (ValueError (''flytekit-learn only supports 'get' and 'post' methods: found ''
                              @ app_method_name))
      else if app_method = EVALUATOR then Inl (KeyError ''Endpoints.EVALUATOR'')
      else if app_method = TRAINER \<and> hyperparameters model \<noteq> [] then
        Inr (app_method,
             replace_parameters (create_model ''HyperparameterModel'' (hyperparameters model))
               (signature TRAINER))
      else Inr (app_method, signature app_method))"

section \<open>Concrete collaborators\<close>

text \<open>
  A labeller whose generator yields one batch, takes the submission, suspends once more
  and then returns.
\<close>

definition example_labeller :: "(string, nat list, nat list) labeller" where
  "example_labeller session_id batch_size kwargs =
     Inr (Created (Yield [1, 2, 3] (\<lambda>labels. Yield [] (\<lambda>_. Return))))"


text \<open>
  A gateway held in memory: its state is the list of past executions, and the listing
  applies the filters, sorts by creation time and cuts at the limit.
\<close>

record 'v run =
  run_launch_plan :: string
  run_phase :: string
  run_created_at :: nat
  run_outputs :: "'v dict"

fun matches :: "'v run \<Rightarrow> filter \<Rightarrow> bool" where
  "matches r (Equal field v) =
     (if field = ''launch_plan.name'' then run_launch_plan r = v
      else if field = ''phase'' then run_phase r = v
      else False)"

fun sorted_runs :: "sort \<Rightarrow> 'v run list \<Rightarrow> 'v run list" where
  "sorted_runs (Sort field ASCENDING) rs = sort_key run_created_at rs"
| "sorted_runs (Sort field DESCENDING) rs = rev (sort_key run_created_at rs)"

definition list_runs ::
  "string \<Rightarrow> string \<Rightarrow> nat \<Rightarrow> filter list \<Rightarrow> sort \<Rightarrow> 'v run list \<Rightarrow>
     (string + ('v run list \<times> string)) \<times> 'v run list" where
  "list_runs project domain limit filters sort_by rs =
     (Inr (take limit (sorted_runs sort_by (filter (\<lambda>r. list_all (matches r) filters) rs)),
           ''token''), rs)"

text \<open>
  A model whose \<open>train\<close> returns the model 7 with the metrics 1, whose \<open>predict\<close> adds
  100 to the model it is given, and whose gateway is the one above.
\<close>

definition example_model :: "(nat, nat run list, nat run) model" where
  "example_model =
     \<lparr>train_workflow_name = ''example.train'',
      predict_workflow_name = ''example.predict'',
      predict_from_features_workflow_name = ''example.predict_from_features'',
      hyperparameters = [(''max_iter'', Py_int)],
      train = (\<lambda>inputs. Inr (7, 1)),
      predict = (\<lambda>inputs. case map_of inputs ''model'' of
                             None \<Rightarrow> Inl ''predict() missing argument: model''
                           | Some m \<Rightarrow> Inr (m + 100)),
      str = (\<lambda>v. ''Model''),
      get_features = (\<lambda>records. Inr (length records)),
      fetch_workflow = (\<lambda>n version rs.
        (Inr \<lparr>id_project = ''project'', id_domain = ''development'', id_name = n\<rparr>, rs)),
      execute = (\<lambda>w inputs rs. (Inr \<lparr>outputs = [(''o0'', 0)]\<rparr>, rs)),
      list_executions_paginated = list_runs,
      promote_from_model = (\<lambda>r. \<lparr>outputs = run_outputs r\<rparr>),
      sync = (\<lambda>e rs. (Inr e, rs))\<rparr>"

text \<open>A start state with both cache slots empty and one failed training run.\<close>

definition example_state :: "(nat, nat run list) state" where
  "example_state =
     \<lparr>latest_model = None, metrics = None,
      remote = [\<lparr>run_launch_plan = ''example.train'', run_phase = ''FAILED'', run_created_at = 1,
                 run_outputs = []\<rparr>],
      calls = []\<rparr>"

text \<open>The two sequencing errors of the labelling endpoint, by the names of the design.\<close>

definition SubmissionPending :: exn where
  "SubmissionPending = HTTPException 400 ''Awaiting labels from current batch''"

definition NoSubmissionExpected :: exn where
  "NoSubmissionExpected = HTTPException 400 ''Labels already submitted for current batch''"

text \<open>The two failures of predict for want of a trained model.\<close>

definition ModelNotTrained :: exn where
  "ModelNotTrained = HTTPException 500 ''trained model not found''"

definition NoTrainedModelFound :: exn where
  "NoTrainedModelFound = ValueError ''not enough values to unpack (expected at least 1, got 0)''"

text \<open>
  An action keeps the cache when it leaves both cache slots of the model as they were.
\<close>

definition keeps_cache :: "(('v, 'r) state, 'a) action \<Rightarrow> bool" where
  "keeps_cache a = (\<forall>st. latest_model (snd (a st)) = latest_model st \<and> metrics (snd (a st)) = metrics st)"

text \<open>
  The calls that execute something: a remote execution of a workflow, and the model's
  own \<open>predict\<close>.
\<close>

fun is_execution :: "'v call \<Rightarrow> bool" where
  "is_execution (Execute w inputs) = True"
| "is_execution (Predict inputs) = True"
| "is_execution _ = False"

text \<open>
  The exceptions that the predict endpoint does not raise for want of a trained model:
  those of its collaborators, a missing output, and the unbound \<^verbatim>\<open>predict_wf\<close>.
\<close>

definition foreign :: "exn \<Rightarrow> bool" where
  "foreign e = (case e of Propagated msg \<Rightarrow> True | KeyError k \<Rightarrow> True
                | UnboundLocalError n \<Rightarrow> True | _ \<Rightarrow> False)"

text \<open>
  The example state with a locally trained model in the cache, and the example state
  whose gateway has a succeeded training run after the failed one.
\<close>

definition example_trained_state :: "(nat, nat run list) state" where
  "example_trained_state = example_state\<lparr>latest_model := Some 7, metrics := Some 1\<rparr>"

definition example_succeeded_state :: "(nat, nat run list) state" where
  "example_succeeded_state =
     example_state\<lparr>remote :=
       [\<lparr>run_launch_plan = ''example.train'', run_phase = ''FAILED'', run_created_at = 1,
          run_outputs = []\<rparr>,
        \<lparr>run_launch_plan = ''example.train'', run_phase = ''SUCCEEDED'', run_created_at = 2,
          run_outputs = [(''trained_model'', 5)]\<rparr>]\<rparr>"

text \<open>The session table after a first request for the next batch of session \<open>s1\<close>.\<close>

definition cache_after_batch :: "(nat list, nat list) labeller_cache" where
  "cache_after_batch =
     snd (labeller_endpoint example_labeller Map.empty ''s1'' 3 False (Some []) None)"







section \<open>Generators: what advancing them can do\<close>

lemma run_body_Inl_Closed: "run_body body = (Inl e, g') \<Longrightarrow> g' = Closed"
  by (cases body) auto

lemma gen_next_Inl_Closed: "gen_next g = (Inl e, g') \<Longrightarrow> g' = Closed"
  by (cases g) (auto simp: gen_next_def dest: run_body_Inl_Closed)

lemma gen_next_Closed: "gen_next Closed = (Inl StopIteration, Closed)"
  by (simp add: gen_next_def)

lemma run_body_not_HTTP: "fst (run_body body) \<noteq> Inl (HTTPException c d)"
  by (cases body) auto

lemma gen_send_not_HTTP: "fst (gen_send g v) \<noteq> Inl (HTTPException c d)"
  by (cases g; cases v) (auto simp: run_body_not_HTTP)

lemma gen_next_not_HTTP: "fst (gen_next g) \<noteq> Inl (HTTPException c d)"
  by (simp add: gen_next_def gen_send_not_HTTP)

section \<open>The labelling endpoint\<close>

text \<open>
  Claim C10. A first labelling request for a session identifier that the session table
  does not hold, made without \<open>reader_inputs\<close>, fails before a session is created:
  building the generator raises (the \<open>TypeError\<close> of \<^verbatim>\<open>**None\<close>), the table is returned
  as it was, and it has no entry for that session identifier afterwards.
\<close>

theorem first_request_without_reader_inputs:
  assumes "cache session_id = None"
  shows "labeller_endpoint labeller cache session_id batch_size submit None submission =
           (Inl (TypeError ''argument after ** must be a mapping, not NoneType''), cache)
         \<and> snd (labeller_endpoint labeller cache session_id batch_size submit None submission)
             session_id = None"
  using assms by (simp add: labeller_endpoint_def open_session_def)

theorem first_request_without_reader_inputs_witness:
  "(Map.empty :: (nat list, nat list) labeller_cache) ''s1'' = None
   \<and> labeller_endpoint example_labeller Map.empty ''s1'' 3 False None None =
       (Inl (TypeError ''argument after ** must be a mapping, not NoneType''), Map.empty)
   \<and> snd (labeller_endpoint example_labeller Map.empty ''s1'' 3 False None None) ''s1'' = None"
  using first_request_without_reader_inputs [of Map.empty "''s1''" example_labeller 3 False None]
  by simp

section \<open>The session table: what one request does to it\<close>

text \<open>
  A complete session holds a closed generator and awaits no submission. Every request
  keeps this, so it holds of every table the endpoint can produce.
\<close>

lemma session_inv_update:
  "session_inv cache \<Longrightarrow> cache sid = Some s \<Longrightarrow>
     (session_complete (f s) \<longrightarrow> generator (f s) = Closed \<and> \<not> awaiting_submission (f s)) \<Longrightarrow>
     session_inv (update_session cache sid f)"
  by (simp add: session_inv_def update_session_def)

lemma open_session_inv:
  "session_inv cache \<Longrightarrow> open_session labeller cache sid bs ri = Inr (g, aw, cache') \<Longrightarrow>
     session_inv cache' \<and> (\<exists>s. cache' sid = Some s \<and> generator s = g \<and> awaiting_submission s = aw)"
  by (auto simp: open_session_def session_inv_def split: option.splits sum.splits if_splits)

lemma dispatch_inv:
  assumes inv: "session_inv cache" and s: "cache sid = Some s"
    and g: "generator s = g" and aw: "awaiting_submission s = aw"
  shows "session_inv (snd (dispatch_labeller g aw cache sid submit submission))"
proof (cases submit)
  case True
  show ?thesis
  proof (cases aw)
    case False
    with True inv show ?thesis by (simp add: dispatch_labeller_def)
  next
    case aw_true: True
    from inv s aw aw_true have nc: "\<not> session_complete s"
      by (auto simp: session_inv_def)
    obtain r g' where send: "gen_send g submission = (r, g')"
      by (cases "gen_send g submission")
    show ?thesis
      using True aw_true send nc
      by (cases r) (auto simp: dispatch_labeller_def intro!: session_inv_update [OF inv s])
  qed
next
  case False
  show ?thesis
  proof (cases aw)
    case True
    with False inv show ?thesis by (simp add: dispatch_labeller_def)
  next
    case aw_false: False
    obtain r g' where nxt: "gen_next g = (r, g')"
      by (cases "gen_next g")
    show ?thesis
    proof (cases r)
      case (Inl e)
      with nxt have "g' = Closed" by (auto dest: gen_next_Inl_Closed)
      with False aw_false nxt Inl aw show ?thesis
        by (cases e) (auto simp: dispatch_labeller_def intro!: session_inv_update [OF inv s])
    next
      case (Inr b)
      have "\<not> session_complete s"
      proof
        assume "session_complete s"
        with inv s g have "g = Closed" by (auto simp: session_inv_def)
        with nxt Inr show False by (simp add: gen_next_Closed)
      qed
      with False aw_false nxt Inr show ?thesis
        by (auto simp: dispatch_labeller_def intro!: session_inv_update [OF inv s])
    qed
  qed
qed

lemma labeller_endpoint_inv:
  assumes "session_inv cache"
  shows "session_inv (snd (labeller_endpoint labeller cache sid bs submit ri submission))"
proof (cases "open_session labeller cache sid bs ri")
  case (Inl e)
  with assms show ?thesis by (simp add: labeller_endpoint_def)
next
  case (Inr t)
  obtain g aw cache' where t: "t = (g, aw, cache')" by (cases t)
  from open_session_inv [OF assms Inr [unfolded t]]
  obtain s where "session_inv cache'" "cache' sid = Some s" "generator s = g" "awaiting_submission s = aw"
    by blast
  then have "session_inv (snd (dispatch_labeller g aw cache' sid submit submission))"
    by (rule dispatch_inv)
  with Inr t show ?thesis by (simp add: labeller_endpoint_def)
qed

lemma reachable_inv: "reachable cache \<Longrightarrow> session_inv cache"
proof (induction rule: reachable.induct)
  case start
  show ?case by (simp add: session_inv_def)
next
  case (request cache labeller session_id batch_size submit reader_inputs submission)
  then show ?case by (simp add: labeller_endpoint_inv)
qed

lemma open_session_existing:
  "cache sid = Some s \<Longrightarrow>
     open_session labeller cache sid bs ri = Inr (generator s, awaiting_submission s, cache)"
  by (simp add: open_session_def)

lemma labeller_endpoint_existing:
  "cache sid = Some s \<Longrightarrow>
     labeller_endpoint labeller cache sid bs submit ri submission =
       dispatch_labeller (generator s) (awaiting_submission s) cache sid submit submission"
  by (simp add: labeller_endpoint_def open_session_existing)

lemma dispatch_next_rejected:
  "(fst (dispatch_labeller g aw cache sid False submission) = Inl (HTTPException c d)) =
     (aw \<and> c = 400 \<and> d = ''Awaiting labels from current batch'')"
proof (cases aw)
  case True
  then show ?thesis by (auto simp: dispatch_labeller_def)
next
  case False
  obtain r g' where nxt: "gen_next g = (r, g')" by (cases "gen_next g")
  with gen_next_not_HTTP [of g c d] have "r \<noteq> Inl (HTTPException c d)" by simp
  with False nxt show ?thesis
    by (auto simp: dispatch_labeller_def split: sum.splits exn.splits)
qed

lemma dispatch_submit_rejected:
  "(fst (dispatch_labeller g aw cache sid True submission) = Inl (HTTPException c d)) =
     (\<not> aw \<and> c = 400 \<and> d = ''Labels already submitted for current batch'')"
proof (cases aw)
  case False
  then show ?thesis by (auto simp: dispatch_labeller_def)
next
  case True
  obtain r g' where snd: "gen_send g submission = (r, g')" by (cases "gen_send g submission")
  with gen_send_not_HTTP [of g submission c d] have "r \<noteq> Inl (HTTPException c d)" by simp
  with True snd show ?thesis
    by (auto simp: dispatch_labeller_def split: sum.splits)
qed

lemma batch_delivered_awaiting:
  assumes "labeller_endpoint labeller cache sid bs False ri submission =
             (Inr (BatchResponse (Some b) False), cache')"
  shows "\<exists>s'. cache' sid = Some s' \<and> awaiting_submission s'"
  using assms
  by (auto simp: labeller_endpoint_def open_session_def dispatch_labeller_def update_session_def
      split: option.splits sum.splits prod.splits exn.splits if_splits)

lemma submit_accepted_not_awaiting:
  assumes "labeller_endpoint labeller cache sid bs True ri submission =
             (Inr (SubmitResponse True False), cache')"
  shows "\<exists>s'. cache' sid = Some s' \<and> \<not> awaiting_submission s'"
  using assms
  by (auto simp: labeller_endpoint_def open_session_def dispatch_labeller_def update_session_def
      split: option.splits sum.splits prod.splits exn.splits if_splits)

lemma open_session_new:
  assumes "cache sid = None" and "open_session labeller cache sid bs ri = Inr (g, aw, cache')"
  shows "\<not> aw \<and> (\<exists>kwargs. ri = Some kwargs \<and> labeller sid bs kwargs = Inr g)
         \<and> cache' = cache(sid \<mapsto> \<lparr>generator = g, awaiting_submission = False, session_complete = False\<rparr>)"
  using assms by (auto simp: open_session_def split: option.splits sum.splits)




text \<open>
  The tables of the two example sessions.
\<close>

lemma cache_after_batch_s1:
  "cache_after_batch ''s1'' =
     Some \<lparr>generator = Suspended (\<lambda>labels. Yield [] (\<lambda>_. Return)),
           awaiting_submission = True, session_complete = False\<rparr>"
  by (simp add: cache_after_batch_def labeller_endpoint_def open_session_def example_labeller_def
      dispatch_labeller_def gen_next_def update_session_def)











section \<open>Sequencing of the labelling session\<close>

text \<open>
  Claim C2, as amended. A labelling request rejected with \<open>SubmissionPending\<close> or
  \<open>NoSubmissionExpected\<close> whose session identifier has an entry in the session table
  leaves the table exactly as it was. When the rejected request is the first one for its
  session identifier, the rejection is \<open>NoSubmissionExpected\<close> of a submit, and the
  table afterwards is the table before with the new entry of that session: the generator
  as the labeller built it, not advanced, and both flags false. The entry of every other
  session is as before.
\<close>

theorem rejected_request_frame:
  assumes step: "labeller_endpoint labeller cache session_id batch_size submit reader_inputs submission
                   = (Inl e, cache')"
    and e: "e = SubmissionPending \<or> e = NoSubmissionExpected"
  shows "(cache session_id \<noteq> None \<longrightarrow> cache' = cache)
       \<and> (cache session_id = None \<longrightarrow>
            e = NoSubmissionExpected \<and> submit
            \<and> (\<exists>kwargs g. reader_inputs = Some kwargs
                  \<and> labeller session_id batch_size kwargs = Inr g
                  \<and> cache' = cache(session_id \<mapsto>
                       \<lparr>generator = g, awaiting_submission = False, session_complete = False\<rparr>)))
       \<and> (\<forall>sid. sid \<noteq> session_id \<longrightarrow> cache' sid = cache sid)"
proof -
  from e obtain d where ed: "e = HTTPException 400 d"
    by (auto simp: SubmissionPending_def NoSubmissionExpected_def)
  show ?thesis
  proof (cases "open_session labeller cache session_id batch_size reader_inputs")
    case (Inl e')
    with step have "e = e'" by (simp add: labeller_endpoint_def)
    with Inl ed show ?thesis
      by (auto simp: open_session_def split: option.splits sum.splits)
  next
    case (Inr t)
    obtain g aw cache1 where t: "t = (g, aw, cache1)" by (cases t)
    from Inr t have os: "open_session labeller cache session_id batch_size reader_inputs = Inr (g, aw, cache1)"
      by simp
    from step os have d: "dispatch_labeller g aw cache1 session_id submit submission = (Inl e, cache')"
      by (simp add: labeller_endpoint_def)
    have rej: "cache' = cache1 \<and> (if submit then \<not> aw \<and> e = NoSubmissionExpected
                                   else aw \<and> e = SubmissionPending)"
    proof (cases submit)
      case True
      from dispatch_submit_rejected [of g aw cache1 session_id submission 400 d] d ed True
      have "\<not> aw" "d = ''Labels already submitted for current batch''" by auto
      with d True ed show ?thesis by (auto simp: dispatch_labeller_def NoSubmissionExpected_def)
    next
      case False
      from dispatch_next_rejected [of g aw cache1 session_id submission 400 d] d ed False
      have "aw" "d = ''Awaiting labels from current batch''" by auto
      with d False ed show ?thesis by (auto simp: dispatch_labeller_def SubmissionPending_def)
    qed
    show ?thesis
    proof (cases "cache session_id")
      case None
      from open_session_new [OF None os] rej show ?thesis
        using None by (auto split: if_splits)
    next
      case (Some s)
      with os have "cache1 = cache" by (simp add: open_session_def)
      with rej Some show ?thesis by simp
    qed
  qed
qed

theorem rejected_request_frame_witness:
  "labeller_endpoint example_labeller cache_after_batch ''s1'' 3 False None None
     = (Inl SubmissionPending, cache_after_batch)
   \<and> cache_after_batch ''s1'' \<noteq> None"
proof -
  have step: "labeller_endpoint example_labeller cache_after_batch ''s1'' 3 False None None
     = (Inl SubmissionPending,
        snd (labeller_endpoint example_labeller cache_after_batch ''s1'' 3 False None None))"
    by (simp add: labeller_endpoint_existing [of cache_after_batch "''s1''", OF cache_after_batch_s1]
        dispatch_labeller_def SubmissionPending_def)
  have ne: "cache_after_batch ''s1'' \<noteq> None"
    by (simp add: cache_after_batch_s1)
  from rejected_request_frame [OF step] ne
  have "snd (labeller_endpoint example_labeller cache_after_batch ''s1'' 3 False None None)
          = cache_after_batch"
    by simp
  with step ne show ?thesis by simp
qed

text \<open>
  Claim C2 as stated fails on a first request that submits: the request is rejected
  with \<open>NoSubmissionExpected\<close>, and the table, empty before, holds an entry for the
  session afterwards.
\<close>

theorem rejected_first_submit_creates_session:
  "fst (labeller_endpoint example_labeller Map.empty ''s1'' 3 True (Some []) None)
     = Inl NoSubmissionExpected
   \<and> (Map.empty :: (nat list, nat list) labeller_cache) ''s1'' = None
   \<and> snd (labeller_endpoint example_labeller Map.empty ''s1'' 3 True (Some []) None) ''s1''
     = Some \<lparr>generator = Created (Yield [1, 2, 3] (\<lambda>labels. Yield [] (\<lambda>_. Return))),
             awaiting_submission = False, session_complete = False\<rparr>
   \<and> snd (labeller_endpoint example_labeller Map.empty ''s1'' 3 True (Some []) None)
     \<noteq> Map.empty"
proof -
  have e: "labeller_endpoint example_labeller Map.empty ''s1'' 3 True (Some []) None =
    (Inl NoSubmissionExpected,
     [''s1'' \<mapsto> \<lparr>generator = Created (Yield [1, 2, 3] (\<lambda>labels. Yield [] (\<lambda>_. Return))),
             awaiting_submission = False, session_complete = False\<rparr>])"
    by (simp add: labeller_endpoint_def open_session_def example_labeller_def
        dispatch_labeller_def NoSubmissionExpected_def)
  show ?thesis unfolding e by simp
qed

text \<open>
  Claim C5. For a session that the table holds and that is not complete, a request for
  the next batch is rejected with \<open>SubmissionPending\<close> exactly when a submission is
  awaited, and a submit is rejected with \<open>NoSubmissionExpected\<close> exactly when none is
  awaited. In particular: after a request that delivered a batch, the next request for a
  batch is rejected and leaves the table as it is; after an accepted submit, the next
  submit is rejected and leaves the table as it is; and a submit that is the first
  request of a session (whose generator could be built) is rejected.
\<close>

theorem turn_taking:
  assumes "cache session_id = Some s" and "\<not> session_complete s"
  shows "((fst (labeller_endpoint labeller cache session_id batch_size False reader_inputs submission)
             = Inl SubmissionPending) = awaiting_submission s)
       \<and> ((fst (labeller_endpoint labeller cache session_id batch_size True reader_inputs submission)
             = Inl NoSubmissionExpected) = (\<not> awaiting_submission s))
       \<and> (\<forall>b cache'.
            labeller_endpoint labeller cache session_id batch_size False reader_inputs submission
              = (Inr (BatchResponse (Some b) False), cache') \<longrightarrow>
            labeller_endpoint labeller' cache' session_id batch_size' False reader_inputs' submission'
              = (Inl SubmissionPending, cache'))
       \<and> (\<forall>cache'.
            labeller_endpoint labeller cache session_id batch_size True reader_inputs submission
              = (Inr (SubmitResponse True False), cache') \<longrightarrow>
            labeller_endpoint labeller' cache' session_id batch_size' True reader_inputs' submission'
              = (Inl NoSubmissionExpected, cache'))
       \<and> (\<forall>g aw cache1.
            fresh session_id = None
            \<and> open_session labeller fresh session_id batch_size reader_inputs = Inr (g, aw, cache1) \<longrightarrow>
            labeller_endpoint labeller fresh session_id batch_size True reader_inputs submission
              = (Inl NoSubmissionExpected, cache1))"
proof (intro conjI allI impI)
  show "(fst (labeller_endpoint labeller cache session_id batch_size False reader_inputs submission)
           = Inl SubmissionPending) = awaiting_submission s"
    using assms(1)
    by (simp add: labeller_endpoint_existing SubmissionPending_def dispatch_next_rejected)
next
  show "(fst (labeller_endpoint labeller cache session_id batch_size True reader_inputs submission)
           = Inl NoSubmissionExpected) = (\<not> awaiting_submission s)"
    using assms(1)
    by (simp add: labeller_endpoint_existing NoSubmissionExpected_def dispatch_submit_rejected)
next
  fix b cache'
  assume "labeller_endpoint labeller cache session_id batch_size False reader_inputs submission
            = (Inr (BatchResponse (Some b) False), cache')"
  then obtain s' where "cache' session_id = Some s'" "awaiting_submission s'"
    by (blast dest: batch_delivered_awaiting)
  then show "labeller_endpoint labeller' cache' session_id batch_size' False reader_inputs' submission'
               = (Inl SubmissionPending, cache')"
    by (simp add: labeller_endpoint_existing dispatch_labeller_def SubmissionPending_def)
next
  fix cache'
  assume "labeller_endpoint labeller cache session_id batch_size True reader_inputs submission
            = (Inr (SubmitResponse True False), cache')"
  then obtain s' where "cache' session_id = Some s'" "\<not> awaiting_submission s'"
    by (blast dest: submit_accepted_not_awaiting)
  then show "labeller_endpoint labeller' cache' session_id batch_size' True reader_inputs' submission'
               = (Inl NoSubmissionExpected, cache')"
    by (simp add: labeller_endpoint_existing dispatch_labeller_def NoSubmissionExpected_def)
next
  fix g aw cache1
  assume h: "fresh session_id = None
      \<and> open_session labeller fresh session_id batch_size reader_inputs = Inr (g, aw, cache1)"
  then have "\<not> aw" by (blast dest: open_session_new)
  with h show "labeller_endpoint labeller fresh session_id batch_size True reader_inputs submission
              = (Inl NoSubmissionExpected, cache1)"
    by (simp add: labeller_endpoint_def dispatch_labeller_def NoSubmissionExpected_def)
qed

theorem turn_taking_witness:
  "cache_after_batch ''s1'' =
     Some \<lparr>generator = Suspended (\<lambda>labels. Yield [] (\<lambda>_. Return)),
           awaiting_submission = True, session_complete = False\<rparr>
   \<and> fst (labeller_endpoint example_labeller cache_after_batch ''s1'' 3 False None (Some [0, 1, 0]))
       = Inl SubmissionPending
   \<and> fst (labeller_endpoint example_labeller cache_after_batch ''s1'' 3 True None (Some [0, 1, 0]))
       \<noteq> Inl NoSubmissionExpected"
  using turn_taking [where cache = cache_after_batch and session_id = "''s1''"
      and labeller = example_labeller and batch_size = 3 and reader_inputs = None
      and submission = "Some [0, 1, 0]" and labeller' = example_labeller and batch_size' = 3
      and reader_inputs' = None and submission' = None and fresh = Map.empty,
      OF cache_after_batch_s1]
    cache_after_batch_s1
  by simp




text \<open>
  Claim C9. In every session table the endpoint can produce, after any sequence of
  requests, exactly one of the three conditions holds of every session: a batch awaits
  its submission, the session is complete, the session is ready for the next batch. In
  particular \<open>awaiting_submission\<close> and \<open>session_complete\<close> are never both true.
\<close>

theorem session_conditions_exclusive:
  assumes "reachable cache" and "cache session_id = Some s"
  shows "(batch_awaiting_submission s \<and> \<not> complete s \<and> \<not> ready_for_batch s
          \<or> \<not> batch_awaiting_submission s \<and> complete s \<and> \<not> ready_for_batch s
          \<or> \<not> batch_awaiting_submission s \<and> \<not> complete s \<and> ready_for_batch s)
         \<and> \<not> (awaiting_submission s \<and> session_complete s)"
proof -
  from assms(1) have "session_inv cache" by (rule reachable_inv)
  with assms(2) have "\<not> (awaiting_submission s \<and> session_complete s)"
    by (auto simp: session_inv_def)
  then show ?thesis
    by (auto simp: batch_awaiting_submission_def complete_def ready_for_batch_def)
qed

theorem session_conditions_exclusive_witness:
  "reachable cache_after_batch
   \<and> cache_after_batch ''s1'' =
       Some \<lparr>generator = Suspended (\<lambda>labels. Yield [] (\<lambda>_. Return)),
             awaiting_submission = True, session_complete = False\<rparr>
   \<and> batch_awaiting_submission (the (cache_after_batch ''s1''))
   \<and> \<not> complete (the (cache_after_batch ''s1''))
   \<and> \<not> ready_for_batch (the (cache_after_batch ''s1''))"
proof -
  have r: "reachable cache_after_batch"
    unfolding cache_after_batch_def by (rule reachable.request [OF reachable.start])
  from session_conditions_exclusive [OF r cache_after_batch_s1] cache_after_batch_s1 r
  show ?thesis
    by (simp add: batch_awaiting_submission_def complete_def ready_for_batch_def)
qed

section \<open>The train and predict endpoints: the cache slots\<close>

lemma keeps_succeed: "keeps_cache (succeed a)"
  by (simp add: keeps_cache_def succeed_def)

lemma keeps_raise: "keeps_cache (raise e)"
  by (simp add: keeps_cache_def raise_def)

lemma keeps_and_then:
  assumes "keeps_cache m" and "\<And>a. keeps_cache (f a)"
  shows "keeps_cache (and_then m f)"
  unfolding keeps_cache_def
proof (intro allI)
  fix st
  obtain r st1 where m: "m st = (r, st1)" by (cases "m st")
  with assms(1) have k1: "latest_model st1 = latest_model st \<and> metrics st1 = metrics st"
    by (auto simp: keeps_cache_def dest: spec [of _ st])
  show "latest_model (snd (and_then m f st)) = latest_model st
        \<and> metrics (snd (and_then m f st)) = metrics st"
  proof (cases r)
    case (Inl e)
    with m k1 show ?thesis by (simp add: and_then_def)
  next
    case (Inr a)
    from assms(2) [of a] have "latest_model (snd (f a st1)) = latest_model st1
        \<and> metrics (snd (f a st1)) = metrics st1"
      by (simp add: keeps_cache_def)
    with Inr m k1 show ?thesis by (simp add: and_then_def)
  qed
qed

lemma keeps_remote_call: "keeps_cache (remote_call c operation)"
  by (simp add: keeps_cache_def remote_call_def split: prod.splits)

lemma keeps_local_call: "keeps_cache (local_call c r)"
  by (simp add: keeps_cache_def local_call_def)

lemma keeps_getitem: "keeps_cache (getitem d key)"
  by (simp add: getitem_def keeps_succeed keeps_raise split: option.splits)

lemma keeps_resolve_model: "keeps_cache (resolve_model model model_name version model_source)"
proof (cases "model_source = ''remote''")
  case True
  then show ?thesis
    unfolding resolve_model_def Let_def
    by (auto intro!: keeps_and_then keeps_remote_call keeps_getitem keeps_raise
        split: list.splits)
next
  case False
  then show ?thesis
    by (simp add: resolve_model_def keeps_cache_def raise_def succeed_def split: option.splits)
qed

lemma keeps_build_request:
  "keeps_cache (build_request model model_name version the_model inputs features)"
  unfolding build_request_def Let_def
  by (auto intro!: keeps_and_then keeps_remote_call keeps_local_call keeps_succeed
      split: option.splits)

lemma keeps_predict_endpoint:
  "keeps_cache (predict_endpoint model local model_name model_version model_source inputs features)"
  unfolding predict_endpoint_def Let_def
  by (auto intro!: keeps_and_then keeps_resolve_model keeps_build_request keeps_remote_call
      keeps_local_call keeps_getitem keeps_raise split: option.splits)

lemma keeps_train_remote:
  "keeps_cache (train_endpoint model False model_name inputs)"
  unfolding train_endpoint_def Let_def
  by (auto intro!: keeps_and_then keeps_remote_call keeps_getitem keeps_succeed)

section \<open>The predict endpoint: its failures\<close>

lemma remote_call_Inl:
  "remote_call c operation st = (Inl e, st') \<Longrightarrow> \<exists>msg. e = Propagated msg"
  by (auto simp: remote_call_def propagate_def split: prod.splits sum.splits)

lemma local_call_Inl:
  "local_call c r st = (Inl e, st') \<Longrightarrow> \<exists>msg. e = Propagated msg"
  by (auto simp: local_call_def propagate_def split: sum.splits)

lemma getitem_Inl:
  "getitem d key st = (Inl e, st') \<Longrightarrow> e = KeyError key"
  by (auto simp: getitem_def raise_def succeed_def split: option.splits)

lemma and_then_Inl:
  "and_then m f st = (Inl e, st') \<Longrightarrow>
     m st = (Inl e, st') \<or> (\<exists>a st1. m st = (Inr a, st1) \<and> f a st1 = (Inl e, st'))"
  by (auto simp: and_then_def split: prod.splits sum.splits)

lemma foreign_simps:
  "foreign (Propagated msg)" "foreign (KeyError k)" "foreign (UnboundLocalError n)"
  "\<not> foreign ModelNotTrained" "\<not> foreign NoTrainedModelFound"
  by (simp_all add: foreign_def ModelNotTrained_def NoTrainedModelFound_def)

lemma resolve_model_local:
  assumes "model_source \<noteq> ''remote''"
  shows "resolve_model model model_name version model_source st =
           (case latest_model st of None \<Rightarrow> (Inl ModelNotTrained, st) | Some m \<Rightarrow> (Inr m, st))"
  using assms
  by (simp add: resolve_model_def raise_def succeed_def ModelNotTrained_def split: option.splits)

lemma succeeded_training_executions_Some:
  assumes "succeeded_training_executions model model_name model_version rs = Some xs"
    and "version = (if model_version = ''latest'' then None else Some model_version)"
  shows "\<exists>train_wf rs1 token rs2.
           fetch_workflow model (workflow_name model_name ''.train'' (train_workflow_name model))
             version rs = (Inr train_wf, rs1)
           \<and> list_executions_paginated model (id_project train_wf) (id_domain train_wf) 1
               (training_filters train_wf) (Sort ''created_at'' DESCENDING) rs1
               = (Inr (xs, token), rs2)"
  using assms(1) unfolding succeeded_training_executions_def assms(2) [symmetric]
  by (auto split: prod.splits sum.splits)

lemma resolve_model_remote_listing:
  assumes "fetch_workflow model (workflow_name model_name ''.train'' (train_workflow_name model))
             version (remote st) = (Inr train_wf, rs1)"
    and "list_executions_paginated model (id_project train_wf) (id_domain train_wf) 1
               (training_filters train_wf) (Sort ''created_at'' DESCENDING) rs1
               = (Inr ([], token), rs2)"
  shows "resolve_model model model_name version ''remote'' st
           = (Inl NoTrainedModelFound,
              st\<lparr>remote := rs2,
                 calls := calls st @
                   [FetchWorkflow (workflow_name model_name ''.train'' (train_workflow_name model))
                      version,
                    ListExecutions (id_project train_wf) (id_domain train_wf) 1
                      (training_filters train_wf) (Sort ''created_at'' DESCENDING)]\<rparr>)"
  using assms
  by (simp add: resolve_model_def and_then_def remote_call_def propagate_def raise_def
      NoTrainedModelFound_def Let_def)

lemma resolve_model_remote_Inl_version:
  assumes "resolve_model model model_name version ''remote'' st = (Inl e, st')"
    and "version = (if model_version = ''latest'' then None else Some model_version)"
  shows "foreign e
         \<or> e = NoTrainedModelFound
           \<and> succeeded_training_executions model model_name model_version (remote st) = Some []"
  using assms(1) unfolding succeeded_training_executions_def assms(2) [symmetric]
  by (auto simp: resolve_model_def and_then_def remote_call_def
      propagate_def raise_def NoTrainedModelFound_def Let_def getitem_def succeed_def foreign_def
      split: prod.splits sum.splits list.splits option.splits)

lemma resolve_model_remote_Inl:
  assumes "resolve_model model model_name
               (if model_version = ''latest'' then None else Some model_version) ''remote'' st
           = (Inl e, st')"
  shows "foreign e
         \<or> e = NoTrainedModelFound
           \<and> succeeded_training_executions model model_name model_version (remote st) = Some []"
  using resolve_model_remote_Inl_version [OF assms refl] .

lemma build_request_Inl:
  "build_request model model_name version the_model inputs features st = (Inl e, st') \<Longrightarrow> foreign e"
  by (auto simp: build_request_def and_then_def remote_call_def local_call_def
      propagate_def succeed_def Let_def foreign_def
      split: prod.splits sum.splits option.splits)

lemma run_prediction_Inl:
  assumes "(if \<not> local then
        (case predict_wf of
           None \<Rightarrow> raise (UnboundLocalError ''predict_wf'')
         | Some bound_wf \<Rightarrow>
             and_then (remote_call (Execute bound_wf workflow_inputs)
                         (execute model bound_wf workflow_inputs))
               (\<lambda>execution. getitem (outputs execution) ''o0''))
      else local_call (Predict workflow_inputs) (predict model workflow_inputs)) st = (Inl e, st')"
  shows "foreign e"
  using assms
  by (auto simp: and_then_def remote_call_def local_call_def raise_def getitem_def
      propagate_def succeed_def foreign_def
      split: prod.splits sum.splits if_splits option.splits)

lemma predict_endpoint_Inl:
  assumes "predict_endpoint model local model_name model_version model_source inputs features st
             = (Inl e, st')"
  shows "foreign e
         \<or> resolve_model model model_name
               (if model_version = ''latest'' then None else Some model_version) model_source st
             = (Inl e, st')"
proof -
  let ?version = "if model_version = ''latest'' then None else Some model_version"
  from assms [unfolded predict_endpoint_def Let_def]
  have "resolve_model model model_name ?version model_source st = (Inl e, st')
        \<or> (\<exists>m st1. resolve_model model model_name ?version model_source st = (Inr m, st1)
             \<and> and_then (build_request model model_name ?version m inputs features)
        (\<lambda>(workflow_inputs, predict_wf).
      if \<not> local then
        (case predict_wf of
           None \<Rightarrow> raise (UnboundLocalError ''predict_wf'')
         | Some bound_wf \<Rightarrow>
             and_then (remote_call (Execute bound_wf workflow_inputs)
                         (execute model bound_wf workflow_inputs))
               (\<lambda>execution. getitem (outputs execution) ''o0''))
      else local_call (Predict workflow_inputs) (predict model workflow_inputs)) st1 = (Inl e, st'))"
    by (rule and_then_Inl)
  then show ?thesis
  proof
    assume "resolve_model model model_name ?version model_source st = (Inl e, st')"
    then show ?thesis by simp
  next
    assume "\<exists>m st1. resolve_model model model_name ?version model_source st = (Inr m, st1)
             \<and> and_then (build_request model model_name ?version m inputs features)
        (\<lambda>(workflow_inputs, predict_wf).
      if \<not> local then
        (case predict_wf of
           None \<Rightarrow> raise (UnboundLocalError ''predict_wf'')
         | Some bound_wf \<Rightarrow>
             and_then (remote_call (Execute bound_wf workflow_inputs)
                         (execute model bound_wf workflow_inputs))
               (\<lambda>execution. getitem (outputs execution) ''o0''))
      else local_call (Predict workflow_inputs) (predict model workflow_inputs)) st1 = (Inl e, st')"
    then obtain m st1 where
      rest: "and_then (build_request model model_name ?version m inputs features)
        (\<lambda>(workflow_inputs, predict_wf).
      if \<not> local then
        (case predict_wf of
           None \<Rightarrow> raise (UnboundLocalError ''predict_wf'')
         | Some bound_wf \<Rightarrow>
             and_then (remote_call (Execute bound_wf workflow_inputs)
                         (execute model bound_wf workflow_inputs))
               (\<lambda>execution. getitem (outputs execution) ''o0''))
      else local_call (Predict workflow_inputs) (predict model workflow_inputs)) st1 = (Inl e, st')"
      by blast
    from and_then_Inl [OF rest] have "foreign e"
      by (auto dest: build_request_Inl run_prediction_Inl)
    then show ?thesis by simp
  qed
qed

lemma predict_endpoint_resolve_fails:
  assumes "resolve_model model model_name
               (if model_version = ''latest'' then None else Some model_version) model_source st
             = (Inl e, st')"
  shows "predict_endpoint model local model_name model_version model_source inputs features st
             = (Inl e, st')"
  using assms by (simp add: predict_endpoint_def and_then_def Let_def)

text \<open>
  The unfoldings that evaluate an endpoint on concrete collaborators.
\<close>

lemmas action_defs =
  and_then_def succeed_def raise_def remote_call_def local_call_def propagate_def getitem_def
  dict_update_def workflow_name_def training_filters_def Let_def

lemma example_no_succeeded:
  "succeeded_training_executions example_model None ''latest'' (remote example_state) = Some []"
  by (simp add: succeeded_training_executions_def example_model_def example_state_def
      list_runs_def action_defs)

section \<open>Train and predict\<close>

text \<open>
  Claim C8. A train request in remote mode leaves both cache slots of the model
  (\<open>latest_model\<close> and \<open>metrics\<close>) as they were. In local mode, when the model's
  \<open>train\<close> returns, the response carries its result and both slots hold that result, the
  model and its metrics; when it raises, both slots are as they were. A predict request
  leaves both slots as they were. (The labelling endpoint has no access to them.)
\<close>

theorem cache_slots_frame:
  "(\<not> local \<longrightarrow>
      latest_model (snd (train_endpoint model local model_name inputs st)) = latest_model st
      \<and> metrics (snd (train_endpoint model local model_name inputs st)) = metrics st)
   \<and> (local \<longrightarrow>
        (case train model (dict_of inputs) of
           Inr (trained_model, trained_metrics) \<Rightarrow>
             fst (train_endpoint model local model_name inputs st)
               = Inr (TrainResponse (str model trained_model) trained_metrics)
             \<and> latest_model (snd (train_endpoint model local model_name inputs st))
               = Some trained_model
             \<and> metrics (snd (train_endpoint model local model_name inputs st))
               = Some trained_metrics
         | Inl msg \<Rightarrow>
             fst (train_endpoint model local model_name inputs st) = Inl (Propagated msg)
             \<and> latest_model (snd (train_endpoint model local model_name inputs st))
               = latest_model st
             \<and> metrics (snd (train_endpoint model local model_name inputs st)) = metrics st))
   \<and> latest_model (snd (predict_endpoint model predict_local predict_model_name model_version
                          model_source predict_inputs features st)) = latest_model st
   \<and> metrics (snd (predict_endpoint model predict_local predict_model_name model_version
                      model_source predict_inputs features st)) = metrics st"
proof (intro conjI impI)
  assume "\<not> local"
  with keeps_train_remote [of model model_name inputs]
  show "latest_model (snd (train_endpoint model local model_name inputs st)) = latest_model st"
    and "metrics (snd (train_endpoint model local model_name inputs st)) = metrics st"
    by (simp_all add: keeps_cache_def)
next
  assume "local"
  then show "case train model (dict_of inputs) of
           Inr (trained_model, trained_metrics) \<Rightarrow>
             fst (train_endpoint model local model_name inputs st)
               = Inr (TrainResponse (str model trained_model) trained_metrics)
             \<and> latest_model (snd (train_endpoint model local model_name inputs st))
               = Some trained_model
             \<and> metrics (snd (train_endpoint model local model_name inputs st))
               = Some trained_metrics
         | Inl msg \<Rightarrow>
             fst (train_endpoint model local model_name inputs st) = Inl (Propagated msg)
             \<and> latest_model (snd (train_endpoint model local model_name inputs st))
               = latest_model st
             \<and> metrics (snd (train_endpoint model local model_name inputs st)) = metrics st"
    by (simp add: train_endpoint_def and_then_def local_call_def propagate_def succeed_def
        split: sum.splits prod.splits)
next
  from keeps_predict_endpoint [of model predict_local predict_model_name model_version
      model_source predict_inputs features]
  show "latest_model (snd (predict_endpoint model predict_local predict_model_name model_version
                          model_source predict_inputs features st)) = latest_model st"
    and "metrics (snd (predict_endpoint model predict_local predict_model_name model_version
                      model_source predict_inputs features st)) = metrics st"
    by (simp_all add: keeps_cache_def)
qed

theorem cache_slots_frame_witness:
  "train example_model (dict_of (PlainDict [(''max_iter'', 10)])) = Inr (7, 1)
   \<and> fst (train_endpoint example_model True None (PlainDict [(''max_iter'', 10)]) example_state)
       = Inr (TrainResponse ''Model'' 1)
   \<and> latest_model (snd (train_endpoint example_model True None (PlainDict [(''max_iter'', 10)])
                          example_state)) = Some 7
   \<and> metrics (snd (train_endpoint example_model True None (PlainDict [(''max_iter'', 10)])
                     example_state)) = Some 1
   \<and> latest_model (snd (train_endpoint example_model False None (PlainDict [(''max_iter'', 10)])
                          example_state)) = None
   \<and> metrics (snd (train_endpoint example_model False None (PlainDict [(''max_iter'', 10)])
                     example_state)) = None"
proof -
  have t: "train example_model (dict_of (PlainDict [(''max_iter'', 10)])) = Inr (7, 1)"
    by (simp add: example_model_def)
  have s: "str example_model 7 = ''Model''"
    by (simp add: example_model_def)
  have n: "latest_model example_state = None" "metrics example_state = None"
    by (simp_all add: example_state_def)
  from cache_slots_frame [where local = True and model = example_model and model_name = None
      and inputs = "PlainDict [(''max_iter'', 10)]" and st = example_state
      and predict_local = True and predict_model_name = None and model_version = "''latest''"
      and model_source = "''local''" and predict_inputs = None and features = None] t s
  have a: "fst (train_endpoint example_model True None (PlainDict [(''max_iter'', 10)]) example_state)
       = Inr (TrainResponse ''Model'' 1)
   \<and> latest_model (snd (train_endpoint example_model True None (PlainDict [(''max_iter'', 10)])
                          example_state)) = Some 7
   \<and> metrics (snd (train_endpoint example_model True None (PlainDict [(''max_iter'', 10)])
                     example_state)) = Some 1"
    by simp
  from cache_slots_frame [where local = False and model = example_model and model_name = None
      and inputs = "PlainDict [(''max_iter'', 10)]" and st = example_state
      and predict_local = True and predict_model_name = None and model_version = "''latest''"
      and model_source = "''local''" and predict_inputs = None and features = None] n
  have b: "latest_model (snd (train_endpoint example_model False None (PlainDict [(''max_iter'', 10)])
                          example_state)) = None
   \<and> metrics (snd (train_endpoint example_model False None (PlainDict [(''max_iter'', 10)])
                     example_state)) = None"
    by simp
  from t a b show ?thesis by simp
qed

text \<open>
  Claim C4. With a model source other than \<open>remote\<close> (\<open>local\<close> in particular) and an
  empty \<open>latest_model\<close> slot, predict fails with \<open>ModelNotTrained\<close> (status 500) and
  nothing is called. With the model source \<open>remote\<close> and no succeeded execution listed
  for the train workflow, predict fails with \<open>NoTrainedModelFound\<close> (the \<open>ValueError\<close>
  of unpacking the empty listing); the only calls made are the fetch of the train workflow
  and the listing, so nothing is executed. Conversely predict fails with either error
  only in that situation.
\<close>

theorem predict_without_trained_model:
  "(model_source \<noteq> ''remote'' \<and> latest_model st = None \<longrightarrow>
      predict_endpoint model local model_name model_version model_source inputs features st
        = (Inl ModelNotTrained, st))
   \<and> (model_source = ''remote''
        \<and> succeeded_training_executions model model_name model_version (remote st) = Some [] \<longrightarrow>
      fst (predict_endpoint model local model_name model_version model_source inputs features st)
        = Inl NoTrainedModelFound
      \<and> filter is_execution
           (calls (snd (predict_endpoint model local model_name model_version model_source
                          inputs features st)))
        = filter is_execution (calls st)
      \<and> (\<exists>train_wf.
            calls (snd (predict_endpoint model local model_name model_version model_source
                          inputs features st))
            = calls st @
                [FetchWorkflow (workflow_name model_name ''.train'' (train_workflow_name model))
                   (if model_version = ''latest'' then None else Some model_version),
                 ListExecutions (id_project train_wf) (id_domain train_wf) 1
                   (training_filters train_wf) (Sort ''created_at'' DESCENDING)]))
   \<and> (fst (predict_endpoint model local model_name model_version model_source inputs features st)
         = Inl ModelNotTrained \<longrightarrow>
       model_source \<noteq> ''remote'' \<and> latest_model st = None)
   \<and> (fst (predict_endpoint model local model_name model_version model_source inputs features st)
         = Inl NoTrainedModelFound \<longrightarrow>
       model_source = ''remote''
       \<and> succeeded_training_executions model model_name model_version (remote st) = Some [])"
proof -
  let ?version = "if model_version = ''latest'' then None else Some model_version"
  let ?p = "predict_endpoint model local model_name model_version model_source inputs features st"
  have local_case: "?p = (Inl ModelNotTrained, st)"
    if "model_source \<noteq> ''remote'' \<and> latest_model st = None"
  proof -
    from that have "resolve_model model model_name ?version model_source st
                      = (Inl ModelNotTrained, st)"
      by (simp add: resolve_model_local)
    then show ?thesis by (rule predict_endpoint_resolve_fails)
  qed
  have remote_case: "fst ?p = Inl NoTrainedModelFound
      \<and> filter is_execution (calls (snd ?p)) = filter is_execution (calls st)
      \<and> (\<exists>train_wf. calls (snd ?p) = calls st @
                [FetchWorkflow (workflow_name model_name ''.train'' (train_workflow_name model))
                   ?version,
                 ListExecutions (id_project train_wf) (id_domain train_wf) 1
                   (training_filters train_wf) (Sort ''created_at'' DESCENDING)])"
    if h: "model_source = ''remote''
        \<and> succeeded_training_executions model model_name model_version (remote st) = Some []"
  proof -
    from h succeeded_training_executions_Some [of model model_name model_version "remote st" "[]" ?version]
    obtain train_wf rs1 token rs2 where
      f: "fetch_workflow model (workflow_name model_name ''.train'' (train_workflow_name model))
             ?version (remote st) = (Inr train_wf, rs1)"
      and l: "list_executions_paginated model (id_project train_wf) (id_domain train_wf) 1
               (training_filters train_wf) (Sort ''created_at'' DESCENDING) rs1
               = (Inr ([], token), rs2)"
      by auto
    from resolve_model_remote_listing [OF f l] h
    have "resolve_model model model_name ?version model_source st
           = (Inl NoTrainedModelFound,
              st\<lparr>remote := rs2,
                 calls := calls st @
                   [FetchWorkflow (workflow_name model_name ''.train'' (train_workflow_name model))
                      ?version,
                    ListExecutions (id_project train_wf) (id_domain train_wf) 1
                      (training_filters train_wf) (Sort ''created_at'' DESCENDING)]\<rparr>)"
      by simp
    then have "?p = (Inl NoTrainedModelFound,
              st\<lparr>remote := rs2,
                 calls := calls st @
                   [FetchWorkflow (workflow_name model_name ''.train'' (train_workflow_name model))
                      ?version,
                    ListExecutions (id_project train_wf) (id_domain train_wf) 1
                      (training_filters train_wf) (Sort ''created_at'' DESCENDING)]\<rparr>)"
      by (rule predict_endpoint_resolve_fails)
    then have "fst ?p = Inl NoTrainedModelFound"
      and c: "calls (snd ?p) = calls st @
                   [FetchWorkflow (workflow_name model_name ''.train'' (train_workflow_name model))
                      ?version,
                    ListExecutions (id_project train_wf) (id_domain train_wf) 1
                      (training_filters train_wf) (Sort ''created_at'' DESCENDING)]"
      by simp_all
    moreover from c have "filter is_execution (calls (snd ?p)) = filter is_execution (calls st)"
      by simp
    ultimately show ?thesis by blast
  qed
  have only_when: "(e = ModelNotTrained \<longrightarrow> model_source \<noteq> ''remote'' \<and> latest_model st = None)
      \<and> (e = NoTrainedModelFound \<longrightarrow> model_source = ''remote''
       \<and> succeeded_training_executions model model_name model_version (remote st) = Some [])"
    if p: "fst ?p = Inl e" and nf: "\<not> foreign e" for e
  proof -
    from p have "?p = (Inl e, snd ?p)" by (simp add: prod_eq_iff)
    from predict_endpoint_Inl [OF this] nf
    have r: "resolve_model model model_name ?version model_source st = (Inl e, snd ?p)"
      by simp
    show ?thesis
    proof (cases "model_source = ''remote''")
      case True
      with r resolve_model_remote_Inl [of model model_name model_version st e "snd ?p"] nf
      have "e = NoTrainedModelFound
           \<and> succeeded_training_executions model model_name model_version (remote st) = Some []"
        by simp
      with True show ?thesis
        by (simp add: ModelNotTrained_def NoTrainedModelFound_def)
    next
      case False
      with r show ?thesis
        by (auto simp: resolve_model_local ModelNotTrained_def NoTrainedModelFound_def
            split: option.splits)
    qed
  qed
  have m: "\<not> foreign ModelNotTrained" and n: "\<not> foreign NoTrainedModelFound"
    by (rule foreign_simps)+
  show ?thesis
  proof (intro conjI impI)
    assume "model_source \<noteq> ''remote'' \<and> latest_model st = None"
    then show "?p = (Inl ModelNotTrained, st)" by (rule local_case)
  next
    assume h: "model_source = ''remote''
        \<and> succeeded_training_executions model model_name model_version (remote st) = Some []"
    from remote_case [OF h] show "fst ?p = Inl NoTrainedModelFound" by blast
    from remote_case [OF h]
    show "filter is_execution (calls (snd ?p)) = filter is_execution (calls st)" by blast
    from remote_case [OF h]
    show "\<exists>train_wf. calls (snd ?p) = calls st @
                [FetchWorkflow (workflow_name model_name ''.train'' (train_workflow_name model))
                   ?version,
                 ListExecutions (id_project train_wf) (id_domain train_wf) 1
                   (training_filters train_wf) (Sort ''created_at'' DESCENDING)]" by blast
  next
    assume h: "fst ?p = Inl ModelNotTrained"
    from only_when [OF h m] show "model_source \<noteq> ''remote''" "latest_model st = None"
      by blast+
  next
    assume h: "fst ?p = Inl NoTrainedModelFound"
    from only_when [OF h n] show "model_source = ''remote''"
      "succeeded_training_executions model model_name model_version (remote st) = Some []"
      by blast+
  qed
qed

theorem predict_without_trained_model_witness:
  "latest_model example_state = None
   \<and> predict_endpoint example_model True None ''latest'' ''local'' (Some [(''x'', 3)]) None
       example_state = (Inl ModelNotTrained, example_state)
   \<and> succeeded_training_executions example_model None ''latest'' (remote example_state) = Some []
   \<and> fst (predict_endpoint example_model False None ''latest'' ''remote'' (Some [(''x'', 3)]) None
            example_state) = Inl NoTrainedModelFound"
proof -
  have n: "latest_model example_state = None" by (simp add: example_state_def)
  from predict_without_trained_model [where model_source = "''local''" and st = example_state
      and model = example_model and local = True and model_name = None
      and model_version = "''latest''" and inputs = "Some [(''x'', 3)]" and features = None] n
  have a: "predict_endpoint example_model True None ''latest'' ''local'' (Some [(''x'', 3)]) None
       example_state = (Inl ModelNotTrained, example_state)"
    by simp
  from predict_without_trained_model [where model_source = "''remote''" and st = example_state
      and model = example_model and local = False and model_name = None
      and model_version = "''latest''" and inputs = "Some [(''x'', 3)]" and features = None]
    example_no_succeeded
  have b: "fst (predict_endpoint example_model False None ''latest'' ''remote'' (Some [(''x'', 3)]) None
            example_state) = Inl NoTrainedModelFound"
    by simp
  from n a b example_no_succeeded show ?thesis by simp
qed

text \<open>
  Claim C3, on the code. A predict request with neither \<open>inputs\<close> nor \<open>features\<close>
  (absent, or both empty) in local mode with a cached model is not rejected: the model's
  \<open>predict\<close> is called with the model alone and its result is returned. The same
  request in remote mode with the model source \<open>remote\<close> fetches the train workflow,
  lists its executions and syncs the latest before it fails on the unbound
  \<^verbatim>\<open>predict_wf\<close>.
\<close>

theorem predict_without_inputs_runs:
  "predict_endpoint example_model True None ''latest'' ''local'' None None example_trained_state
     = (Inr 107, example_trained_state\<lparr>calls := [Predict [(''model'', 7)]]\<rparr>)
   \<and> predict_endpoint example_model True None ''latest'' ''local'' (Some []) (Some [])
       example_trained_state
     = (Inr 107, example_trained_state\<lparr>calls := [Predict [(''model'', 7)]]\<rparr>)
   \<and> fst (predict_endpoint example_model False None ''latest'' ''remote'' None None
            example_succeeded_state)
     = Inl (UnboundLocalError ''predict_wf'')
   \<and> calls (snd (predict_endpoint example_model False None ''latest'' ''remote'' None None
                   example_succeeded_state))
     = [FetchWorkflow ''example.train'' None,
        ListExecutions ''project'' ''development'' 1
          [Equal ''launch_plan.name'' ''example.train'', Equal ''phase'' ''SUCCEEDED'']
          (Sort ''created_at'' DESCENDING),
        Sync \<lparr>outputs = [(''trained_model'', 5)]\<rparr>]"
  by (simp add: predict_endpoint_def resolve_model_def build_request_def example_model_def
      example_trained_state_def example_succeeded_state_def example_state_def list_runs_def
      action_defs)

text \<open>
  Claim C7, on the code. A local train followed by a local predict with the model source
  \<open>local\<close> and inputs scores with the model just trained, but calls the gateway's
  \<open>fetch_workflow\<close> for the predict workflow before the model's \<open>predict\<close>. When the
  inputs carry a key \<open>model\<close>, that value replaces the cached model in the call.
\<close>

theorem local_predict_fetches_workflow:
  "predict_endpoint example_model True None ''latest'' ''local'' (Some [(''x'', 3)]) None
     (snd (train_endpoint example_model True None (PlainDict [(''max_iter'', 10)]) example_state))
   = (Inr 107,
      example_state\<lparr>latest_model := Some 7, metrics := Some 1,
        calls := [Train [(''max_iter'', 10)],
                  FetchWorkflow ''example.predict'' None,
                  Predict [(''model'', 7), (''x'', 3)]]\<rparr>)
   \<and> fst (predict_endpoint example_model True None ''latest'' ''local'' (Some [(''model'', 99)]) None
       (snd (train_endpoint example_model True None (PlainDict [(''max_iter'', 10)]) example_state)))
     = Inr 199"
  by (simp add: predict_endpoint_def train_endpoint_def resolve_model_def build_request_def
      example_model_def example_state_def action_defs)

section \<open>Registration\<close>

text \<open>
  Whatever hyperparameters the model declares, the train endpoint is registered with the
  signature it was written with: no parameter of it is named \<^verbatim>\<open>hyperparameters\<close>.
\<close>

lemma wrapper_trainer_signature:
  "wrapper model ''post'' TRAINER = Inr (TRAINER, signature TRAINER)"
  by (simp add: wrapper_def replace_parameters_def)

text \<open>
  Claim C1, on the code. For a model that declares the hyperparameter \<open>max_iter\<close> of
  type \<open>int\<close>, registration builds the pydantic model with \<open>max_iter\<close> as a required
  field, but the train endpoint is registered with its signature unchanged: \<open>inputs\<close>
  keeps the annotation \<open>Dict\<close> and no parameter has the pydantic model as its annotation.
\<close>

theorem hyperparameter_model_not_attached:
  "hyperparameters example_model = [(''max_iter'', Py_int)]
   \<and> create_model ''HyperparameterModel'' (hyperparameters example_model)
       = PydanticModel ''HyperparameterModel'' [(''max_iter'', Py_int, True)]
   \<and> wrapper example_model ''post'' TRAINER = Inr (TRAINER, signature TRAINER)
   \<and> map param_annotation (signature TRAINER)
       = [Typing ''bool'', Typing ''Optional[str]'', Typing ''Dict'']"
  by (simp add: wrapper_def replace_parameters_def create_model_def example_model_def)

end
